theory Spec2Isabelle
  imports Complex_Main "HOL-Library.AList"
begin

section \<open>Python values and built-ins the plugin relies on\<close>

text \<open>
  \<^verbatim>\<open>emmet_sublime.py\<close> is the adapter between Sublime Text and the Emmet engine.
  The editor (\<^verbatim>\<open>sublime\<close>), the engine (\<^verbatim>\<open>.emmet\<close>) and the syntax helper
  (\<^verbatim>\<open>.syntax\<close>) are collaborators: they enter the model as parameters. Python integers
  are unbounded (\<open>int\<close>), dictionaries are association lists updated with
  \<open>AList.update\<close> (a key keeps the position of its first insertion, as in Python),
  exceptions are values of type \<open>error\<close>.
\<close>

datatype error =
    KeyError string
  | IndexError
  | TypeError
  | UnboundLocalError string
  | EngineError string

text \<open>\<^verbatim>\<open>sublime.Region(a, b)\<close>: \<^verbatim>\<open>begin()\<close> is the smaller end, \<^verbatim>\<open>end()\<close> the larger.\<close>

datatype region = Region int int

fun region_begin :: "region \<Rightarrow> int" where
  "region_begin (Region a b) = min a b"

fun region_end :: "region \<Rightarrow> int" where
  "region_end (Region a b) = max a b"

text \<open>The three module-level functions that the plugin hands to the engine as callbacks.\<close>

datatype callback = Field | FieldPreview | EscapeText

text \<open>
  A Python float: a finite float is a rational number; the zero with a sign bit and the
  three special values are kept apart because \<^verbatim>\<open>'%.4f'\<close> prints them differently.
\<close>

datatype pyfloat = Finite rat | NegZero | PosInf | NegInf | NaN

datatype pyval =
    VNone
  | VBool bool
  | VInt int
  | VFloat pyfloat
  | VStr string
  | VRegion region
  | VFunc callback
  | VRef nat
  | VDict "(string \<times> pyval) list"

type_synonym dict = "(string \<times> pyval) list"

text \<open>Truth value of an object in a condition (\<^verbatim>\<open>if x:\<close>, \<^verbatim>\<open>x and y\<close>, \<^verbatim>\<open>not x\<close>).\<close>

fun truthy :: "pyval \<Rightarrow> bool" where
  "truthy VNone = False"
| "truthy (VBool b) = b"
| "truthy (VInt i) = (i \<noteq> 0)"
| "truthy (VFloat x) = (x \<noteq> Finite 0 \<and> x \<noteq> NegZero)"
| "truthy (VStr s) = (s \<noteq> [])"
| "truthy (VRegion r) = True"
| "truthy (VFunc f) = True"
| "truthy (VRef a) = True"
| "truthy (VDict d) = (d \<noteq> [])"

text \<open>\<^verbatim>\<open>d.get(key, default)\<close>, \<^verbatim>\<open>d[key]\<close> and \<^verbatim>\<open>d.update(other)\<close>.\<close>

definition dict_get :: "dict \<Rightarrow> string \<Rightarrow> pyval \<Rightarrow> pyval" where
  "dict_get d k dflt = (case map_of d k of None \<Rightarrow> dflt | Some v \<Rightarrow> v)"

definition dict_item :: "dict \<Rightarrow> string \<Rightarrow> error + pyval" where
  "dict_item d k = (case map_of d k of None \<Rightarrow> Inl (KeyError k) | Some v \<Rightarrow> Inr v)"

definition dict_update :: "dict \<Rightarrow> dict \<Rightarrow> dict" where
  "dict_update d other = fold (\<lambda>(k, v). AList.update k v) other d"

text \<open>\<^verbatim>\<open>'%d' % index\<close> for an integer: the decimal digits, with a minus sign below zero.\<close>

definition digit_char :: "nat \<Rightarrow> char" where
  "digit_char n = ''0123456789'' ! n"

fun digits10 :: "nat \<Rightarrow> string" where
  "digits10 n = (if n < 10 then [digit_char n] else digits10 (n div 10) @ [digit_char (n mod 10)])"

declare digits10.simps [simp del]

definition fmt_d :: "int \<Rightarrow> string" where
  "fmt_d i = (if i < 0 then CHR ''-'' # digits10 (nat (- i)) else digits10 (nat i))"

text \<open>\<^verbatim>\<open>s.rstrip(chars)\<close> and \<^verbatim>\<open>s.strip(chars)\<close>: every leading or trailing character that
  occurs in \<^verbatim>\<open>chars\<close> is removed.\<close>

definition py_lstrip :: "string \<Rightarrow> string \<Rightarrow> string" where
  "py_lstrip chars s = dropWhile (\<lambda>c. c \<in> set chars) s"

definition py_rstrip :: "string \<Rightarrow> string \<Rightarrow> string" where
  "py_rstrip chars s = rev (dropWhile (\<lambda>c. c \<in> set chars) (rev s))"

definition py_strip :: "string \<Rightarrow> string \<Rightarrow> string" where
  "py_strip chars s = py_rstrip chars (py_lstrip chars s)"

text \<open>\<^verbatim>\<open>s[start:end]\<close>: a negative index counts from the end, and both are clamped to the
  string.\<close>

definition slice_index :: "int \<Rightarrow> nat \<Rightarrow> nat" where
  "slice_index i n = (if i < 0 then nat (max (i + int n) 0) else min (nat i) n)"

definition py_slice :: "string \<Rightarrow> int \<Rightarrow> int \<Rightarrow> string" where
  "py_slice s start stop =
     (let lo = slice_index start (length s); hi = slice_index stop (length s)
      in take (hi - lo) (drop lo s))"


section \<open>The editor and the engine\<close>

text \<open>
  A \<^verbatim>\<open>sublime.View\<close>, as far as the plugin uses it. A view object is true in a
  condition when its id is not 0.
\<close>

record view =
  view_id :: int
  view_size :: int
  view_substr :: "region \<Rightarrow> string"
  view_line :: "int \<Rightarrow> region"
  extract_scope :: "int \<Rightarrow> region"
  match_selector :: "int \<Rightarrow> string \<Rightarrow> bool"

text \<open>What the engine's \<^verbatim>\<open>extract\<close> returns, and what the tag matcher returns.\<close>

record abbr_data =
  ad_abbreviation :: string
  ad_location :: int
  ad_start :: int
  ad_end :: int

record attr =
  attr_name :: string
  attr_value :: "string option"

record matched_tag =
  tag_name :: string
  tag_attributes :: "attr list"
  tag_open :: "int list"
  tag_close :: "int list option"

text \<open>
  The collaborators: the engine (\<^verbatim>\<open>extract\<close>, \<^verbatim>\<open>expand\<close>, the HTML matcher, the math
  scanner and evaluator) and the \<^verbatim>\<open>syntax\<close> module. The engine's \<^verbatim>\<open>expand\<close> receives
  the content of the cache that \<^verbatim>\<open>opt['cache']\<close> refers to and returns the content it
  leaves there.
\<close>

record externals =
  emmet_extract :: "string \<Rightarrow> int \<Rightarrow> dict \<Rightarrow> error + abbr_data option"
  expand_abbreviation :: "string \<Rightarrow> dict \<Rightarrow> pyval \<Rightarrow> dict \<Rightarrow> dict \<times> (error + string)"
  html_match :: "string \<Rightarrow> int \<Rightarrow> dict \<Rightarrow> matched_tag option"
  extract_math :: "string \<Rightarrow> int \<Rightarrow> pyval \<Rightarrow> error + (int \<times> int) option"
  evaluate :: "string \<Rightarrow> error + pyfloat"
  syntax_info :: "view \<Rightarrow> int \<Rightarrow> string \<Rightarrow> dict"
  syntax_from_pos :: "view \<Rightarrow> int \<Rightarrow> pyval"
  syntax_is_xml :: "pyval \<Rightarrow> bool"
  syntax_is_html :: "pyval \<Rightarrow> bool"
  syntax_is_jsx :: "pyval \<Rightarrow> bool"
  syntax_is_inline :: "view \<Rightarrow> int \<Rightarrow> bool"

text \<open>
  The mutable state: the dictionary objects (a store from addresses to contents, with
  the next free address), the module globals \<^verbatim>\<open>emmet_cache\<close> (a reference to a
  dictionary) and \<^verbatim>\<open>settings\<close> (\<open>None\<close> until loaded, then the name of the loaded
  settings file), and the editor's side: the stored settings files, the registered
  change listeners, the active view, and the options each call of the engine's
  \<^verbatim>\<open>extract\<close> has received.
\<close>

datatype listener = HandleSettingsChange

record world =
  heap :: "nat \<Rightarrow> dict"
  next_addr :: nat
  emmet_cache :: nat
  settings :: "string option"
  settings_files :: "string \<Rightarrow> dict"
  on_change :: "(string \<times> string \<times> listener) list"
  active_view :: "view option"
  extract_calls :: "(string \<times> int \<times> dict) list"

text \<open>Creating a dictionary object: it gets the next free address.\<close>

definition new_dict :: "dict \<Rightarrow> world \<Rightarrow> world \<times> nat" where
  "new_dict d w = (w\<lparr>heap := (heap w)(next_addr w := d), next_addr := Suc (next_addr w)\<rparr>, next_addr w)"


section \<open>Settings and the cache\<close>

definition JSX_PREFIX :: string where
  "JSX_PREFIX = ''<''"

text \<open>\<^verbatim>\<open>get_settings(key, default)\<close>: loads the settings on first use and registers the
  change listener for the key \<^verbatim>\<open>config\<close>.\<close>

definition get_settings :: "string \<Rightarrow> pyval \<Rightarrow> world \<Rightarrow> world \<times> pyval" where
  "get_settings key dflt w =
     (let w1 = (case settings w of
                  None \<Rightarrow> w\<lparr>settings := Some ''Emmet.sublime-settings'',
                            on_change := on_change w @
                              [(''Emmet.sublime-settings'', ''config'', HandleSettingsChange)]\<rparr>
                | Some f \<Rightarrow> w)
      in (case settings w1 of
            None \<Rightarrow> (w1, dflt)
          | Some f \<Rightarrow> (w1, dict_get (settings_files w1 f) key dflt)))"

text \<open>\<^verbatim>\<open>handle_settings_change()\<close>: binds the global \<^verbatim>\<open>emmet_cache\<close> to a new, empty
  dictionary.\<close>

definition handle_settings_change :: "world \<Rightarrow> world" where
  "handle_settings_change w = (let (w1, a) = new_dict [] w in w1\<lparr>emmet_cache := a\<rparr>)"


section \<open>Snippet fields and expansion\<close>

definition field :: "int \<Rightarrow> string \<Rightarrow> string" where
  "field index placeholder =
     (if placeholder \<noteq> [] then ''${'' @ fmt_d index @ '':'' @ placeholder @ ''}''
      else ''${'' @ fmt_d index @ ''}'')"

definition field_preview :: "int \<Rightarrow> string \<Rightarrow> string" where
  "field_preview index placeholder = placeholder"

text \<open>Calling one of the two field callbacks that \<^verbatim>\<open>expand\<close> may install.\<close>

fun call_field :: "callback \<Rightarrow> int \<Rightarrow> string \<Rightarrow> string option" where
  "call_field Field index placeholder = Some (field index placeholder)"
| "call_field FieldPreview index placeholder = Some (field_preview index placeholder)"
| "call_field EscapeText index placeholder = None"

text \<open>
  \<^verbatim>\<open>expand(abbr, config)\<close>. \<^verbatim>\<open>global_config\<close> is assigned only under \<^verbatim>\<open>if view:\<close>; reading
  it in the last line when it was not assigned raises \<^verbatim>\<open>UnboundLocalError\<close>.
  \<^verbatim>\<open>output_opt.update(x)\<close> raises for an \<^verbatim>\<open>x\<close> that is neither a dictionary nor empty.
\<close>

definition expand :: "externals \<Rightarrow> string \<Rightarrow> dict option \<Rightarrow> world \<Rightarrow> world \<times> (error + string)" where
  "expand ext abbr config w =
     (let config_true = (case config of None \<Rightarrow> False | Some c \<Rightarrow> c \<noteq> []);
          cfg = (case config of None \<Rightarrow> [] | Some c \<Rightarrow> c);
          is_preview = (if config_true then truthy (dict_get cfg ''preview'' (VBool False)) else False);
          opt = [(''cache'', VRef (emmet_cache w))];
          output_opt =
            [(''output.field'', VFunc (if is_preview then FieldPreview else Field)),
             (''output.text'', VFunc EscapeText),
             (''output.format'', VBool (\<not> config_true \<or> \<not> truthy (dict_get cfg ''inline'' VNone)))];
          opt1 = (if config_true then dict_update opt cfg else opt);
          merged =
            (if config_true \<and> map_of cfg ''options'' \<noteq> None then
               (case dict_get cfg ''options'' VNone of
                  VDict od \<Rightarrow> Inr (dict_update output_opt od)
                | VStr [] \<Rightarrow> Inr output_opt
                | _ \<Rightarrow> Inl TypeError)
             else Inr output_opt)
      in case merged of
           Inl e \<Rightarrow> (w, Inl e)
         | Inr output_opt1 \<Rightarrow>
             (let opt2 = AList.update ''options'' (VDict output_opt1) opt1 in
              case active_view w of
                None \<Rightarrow> (w, Inl (UnboundLocalError ''global_config''))
              | Some v \<Rightarrow>
                  if view_id v \<noteq> 0 then
                    (let (w1, global_config) = get_settings ''config'' VNone w;
                         (cache1, r) = expand_abbreviation ext abbr opt2 global_config
                                         (heap w1 (emmet_cache w1))
                     in (w1\<lparr>heap := (heap w1)(emmet_cache w1 := cache1)\<rparr>, r))
                  else (w, Inl (UnboundLocalError ''global_config''))))"


section \<open>Math evaluation\<close>

text \<open>
  \<^verbatim>\<open>'%.4f' % result\<close>: the value rounded to four decimals (the exact value of the float,
  a tie going to the even digit), printed with its integer part, a point and four digits.
\<close>

definition round_half_even :: "rat \<Rightarrow> int" where
  "round_half_even x =
     (let f = \<lfloor>x\<rfloor>; d = x - of_int f
      in if d < 1 / 2 then f else if 1 / 2 < d then f + 1 else if even f then f else f + 1)"

definition frac4 :: "nat \<Rightarrow> string" where
  "frac4 m = [digit_char (m div 1000 mod 10), digit_char (m div 100 mod 10),
              digit_char (m div 10 mod 10), digit_char (m mod 10)]"

fun fmt_4f :: "pyfloat \<Rightarrow> string" where
  "fmt_4f (Finite q) =
     (let n = nat (round_half_even (\<bar>q\<bar> * 10000))
      in (if q < 0 then ''-'' else []) @ digits10 (n div 10000) @ ''.'' @ frac4 (n mod 10000))"
| "fmt_4f NegZero = ''-0.0000''"
| "fmt_4f PosInf = ''inf''"
| "fmt_4f NegInf = ''-inf''"
| "fmt_4f NaN = ''nan''"

text \<open>
  \<^verbatim>\<open>evaluate_math(code, pos, options)\<close>. The scanner is called before the \<^verbatim>\<open>try\<close>;
  everything after it is inside the \<^verbatim>\<open>try\<close>, whose bare \<^verbatim>\<open>except\<close> makes the function
  fall through and return \<^verbatim>\<open>None\<close>.
\<close>

definition evaluate_math :: "externals \<Rightarrow> string \<Rightarrow> int \<Rightarrow> pyval \<Rightarrow> error + pyval" where
  "evaluate_math ext code pos options =
     (case extract_math ext code pos options of
        Inl e \<Rightarrow> Inl e
      | Inr None \<Rightarrow> Inr VNone
      | Inr (Some (start, stop)) \<Rightarrow>
          (case evaluate ext (py_slice code start stop) of
             Inl e \<Rightarrow> Inr VNone
           | Inr result \<Rightarrow>
               Inr (VDict [(''start'', VInt start), (''end'', VInt stop),
                           (''result'', VFloat result),
                           (''snippet'', VStr (py_rstrip ''.'' (py_rstrip ''0'' (fmt_4f result))))])))"


section \<open>Context of the caret\<close>

text \<open>\<^verbatim>\<open>to_region(rng)\<close> reads \<^verbatim>\<open>rng[0]\<close> and \<^verbatim>\<open>rng[1]\<close>.\<close>

definition to_region :: "int list \<Rightarrow> error + region" where
  "to_region rng = (case rng of a # b # rest \<Rightarrow> Inr (Region a b) | _ \<Rightarrow> Inl IndexError)"

text \<open>The value stored for an attribute: the \<^verbatim>\<open># unquote value\<close> step of the loop in
  \<^verbatim>\<open>get_tag_context\<close>.\<close>

definition unquote_value :: "string option \<Rightarrow> pyval" where
  "unquote_value v =
     (case v of
        None \<Rightarrow> VNone
      | Some val \<Rightarrow>
          if val \<noteq> [] \<and> (hd val = CHR 0x22 \<or> hd val = CHR 0x27)
          then VStr (py_strip [hd val] val) else VStr val)"

definition get_tag_context :: "externals \<Rightarrow> view \<Rightarrow> int \<Rightarrow> pyval \<Rightarrow> error + pyval" where
  "get_tag_context ext view pt xml =
     (let content = view_substr view (Region 0 (view_size view));
          xml1 = (if xml = VNone
                  then VBool (syntax_is_xml ext (syntax_from_pos ext view pt)) else xml)
      in case html_match ext content pt [(''xml'', xml1)] of
           None \<Rightarrow> Inr VNone
         | Some matched \<Rightarrow>
             (case to_region (tag_open matched) of
                Inl e \<Rightarrow> Inl e
              | Inr open_region \<Rightarrow>
                  (let ctx = [(''name'', VStr (tag_name matched)), (''attributes'', VDict []),
                              (''open'', VRegion open_region)];
                       attrs = fold (\<lambda>a d. AList.update (attr_name a) (unquote_value (attr_value a)) d)
                                 (tag_attributes matched) []
                   in case tag_close matched of
                        None \<Rightarrow> Inr (VDict (AList.update ''attributes'' (VDict attrs) ctx))
                      | Some close_tag \<Rightarrow>
                          if close_tag = []
                          then Inr (VDict (AList.update ''attributes'' (VDict attrs) ctx))
                          else (case to_region close_tag of
                                  Inl e \<Rightarrow> Inl e
                                | Inr close_region \<Rightarrow>
                                    Inr (VDict (AList.update ''attributes'' (VDict attrs)
                                      (AList.update ''close'' (VRegion close_region) ctx)))))))"

text \<open>
  The \<^verbatim>\<open>while\<close> loop of \<^verbatim>\<open>get_css_context\<close>, from the position \<^verbatim>\<open>ctx_pos\<close>. Whether it
  ends depends on what the view answers, so the result is an option: \<open>None\<close> when the
  loop runs forever.
\<close>

partial_function (option) css_walk :: "view \<Rightarrow> int \<Rightarrow> pyval option" where
  "css_walk view ctx_pos =
     (if 0 \<le> ctx_pos \<and> \<not> match_selector view ctx_pos ''section.property-list''
         \<and> \<not> match_selector view ctx_pos ''meta.selector''
      then (if match_selector view ctx_pos ''meta.property-name''
            then Some (VDict [(''name'', VStr (view_substr view (extract_scope view ctx_pos)))])
            else css_walk view (region_begin (extract_scope view ctx_pos) - 1))
      else Some VNone)"

definition get_css_context :: "view \<Rightarrow> int \<Rightarrow> pyval option" where
  "get_css_context view pt =
     (if match_selector view pt ''meta.property-value''
      then css_walk view (region_begin (extract_scope view pt) - 1)
      else Some VNone)"

definition attach_context :: "externals \<Rightarrow> view \<Rightarrow> int \<Rightarrow> dict \<Rightarrow> (error + dict) option" where
  "attach_context ext view pt config =
     (case dict_item config ''type'' of
        Inl e \<Rightarrow> Some (Inl e)
      | Inr t \<Rightarrow>
          if t = VStr ''stylesheet'' then
            (case get_css_context view pt of
               None \<Rightarrow> None
             | Some c \<Rightarrow> Some (Inr (AList.update ''context'' c config)))
          else
            (case dict_item config ''syntax'' of
               Inl e \<Rightarrow> Some (Inl e)
             | Inr s \<Rightarrow>
                 if syntax_is_html ext s then
                   (case get_tag_context ext view pt (VBool (syntax_is_xml ext s)) of
                      Inl e \<Rightarrow> Some (Inl e)
                    | Inr c \<Rightarrow> Some (Inr (AList.update ''context'' c config)))
                 else Some (Inr config)))"

definition get_options :: "externals \<Rightarrow> view \<Rightarrow> int \<Rightarrow> bool \<Rightarrow> (error + dict) option" where
  "get_options ext view pt with_context =
     (let config = syntax_info ext view pt ''html'' in
      case (if with_context then attach_context ext view pt config else Some (Inr config)) of
        None \<Rightarrow> None
      | Some (Inl e) \<Rightarrow> Some (Inl e)
      | Some (Inr config1) \<Rightarrow>
          (let config2 = AList.update ''inline'' (VBool (syntax_is_inline ext view pt)) config1 in
           case dict_item config2 ''syntax'' of
             Inl e \<Rightarrow> Some (Inl e)
           | Inr s \<Rightarrow>
               Some (Inr (if syntax_is_jsx ext s
                          then AList.update ''jsx'' (VBool True)
                                 (AList.update ''prefix'' (VStr JSX_PREFIX) config2)
                          else config2))))"


section \<open>Extracting the abbreviation\<close>

text \<open>What a caller may pass as \<^verbatim>\<open>loc\<close>: an integer, a list or tuple, a region, or
  anything else.\<close>

datatype location = LInt int | LList "int list" | LRegion region | LOther

text \<open>
  \<^verbatim>\<open>extract_abbreviation(view, loc, opt)\<close>. \<^verbatim>\<open>opt\<close> is a reference to the caller's
  dictionary, or \<open>None\<close>; the result carries the same reference. The outer option is
  \<open>None\<close> only if resolving the options does not return.
\<close>

definition extract_abbreviation ::
  "externals \<Rightarrow> view \<Rightarrow> location \<Rightarrow> nat option \<Rightarrow> world
     \<Rightarrow> (world \<times> (error + (abbr_data \<times> nat) option)) option" where
  "extract_abbreviation ext view loc opt w =
     (case (case loc of
              LList rng \<Rightarrow> (case to_region rng of Inl e \<Rightarrow> Inl e | Inr r \<Rightarrow> Inr (LRegion r))
            | _ \<Rightarrow> Inr loc) of
        Inl e \<Rightarrow> Some (w, Inl e)
      | Inr loc1 \<Rightarrow>
          (case (case loc1 of
                   LInt i \<Rightarrow> Some (i, view_line view i)
                 | LRegion r \<Rightarrow> Some (region_end r, r)
                 | _ \<Rightarrow> None) of
             None \<Rightarrow> Some (w, Inr None)
           | Some (pt, region) \<Rightarrow>
               (let text = view_substr view region;
                    beg = region_begin region
                in case (case opt of
                           Some a \<Rightarrow> Some (Inr (w, a))
                         | None \<Rightarrow>
                             (case get_options ext view pt False of
                                None \<Rightarrow> None
                              | Some (Inl e) \<Rightarrow> Some (Inl e)
                              | Some (Inr config) \<Rightarrow> Some (Inr (new_dict config w)))) of
                     None \<Rightarrow> None
                   | Some (Inl e) \<Rightarrow> Some (w, Inl e)
                   | Some (Inr (w1, a)) \<Rightarrow>
                       (case dict_item (heap w1 a) ''type'' of
                          Inl e \<Rightarrow> Some (w1, Inl e)
                        | Inr t \<Rightarrow>
                            (let w2 = (if t = VStr ''stylesheet''
                                       then w1\<lparr>heap := (heap w1)
                                              (a := AList.update ''lookAhead'' (VBool False) (heap w1 a))\<rparr>
                                       else w1);
                                 w3 = w2\<lparr>extract_calls :=
                                          extract_calls w2 @ [(text, pt - beg, heap w2 a)]\<rparr>
                             in case emmet_extract ext text (pt - beg) (heap w2 a) of
                                  Inl e \<Rightarrow> Some (w3, Inl e)
                                | Inr None \<Rightarrow> Some (w3, Inr None)
                                | Inr (Some abbr_data) \<Rightarrow>
                                    Some (w3, Inr (Some (abbr_data
                                      \<lparr>ad_location := ad_location abbr_data + beg,
                                       ad_start := ad_start abbr_data + beg,
                                       ad_end := ad_end abbr_data + beg\<rparr>, a))))))))"


section \<open>Notions used in the statements\<close>

text \<open>The point and the region that \<^verbatim>\<open>extract_abbreviation\<close> works on, for the locations
  it accepts: the line of an integer location, or the given range with its end as the
  point.\<close>

fun scan_target :: "view \<Rightarrow> location \<Rightarrow> (int \<times> region) option" where
  "scan_target view (LInt i) = Some (i, view_line view i)"
| "scan_target view (LRegion r) = Some (region_end r, r)"
| "scan_target view (LList rng) =
     (case to_region rng of Inl e \<Rightarrow> None | Inr r \<Rightarrow> Some (region_end r, r))"
| "scan_target view LOther = None"

text \<open>An extracted abbreviation with its three offsets moved by \<open>beg\<close>.\<close>

definition translated :: "abbr_data \<Rightarrow> int \<Rightarrow> abbr_data" where
  "translated m beg = m\<lparr>ad_location := ad_location m + beg,
                           ad_start := ad_start m + beg,
                           ad_end := ad_end m + beg\<rparr>"

text \<open>An engine that renders one field, at the given index and placeholder, through
  the callback it finds under \<^verbatim>\<open>options['output.field']\<close>.\<close>

definition single_field_engine ::
  "int \<Rightarrow> string \<Rightarrow> string \<Rightarrow> dict \<Rightarrow> pyval \<Rightarrow> dict \<Rightarrow> dict \<times> (error + string)" where
  "single_field_engine index placeholder abbr opt global_config cache =
     (cache,
      case dict_get opt ''options'' VNone of
        VDict od \<Rightarrow>
          (case dict_get od ''output.field'' VNone of
             VFunc f \<Rightarrow> (case call_field f index placeholder of
                            Some s \<Rightarrow> Inr s | None \<Rightarrow> Inl TypeError)
           | _ \<Rightarrow> Inl TypeError)
      | _ \<Rightarrow> Inl TypeError)"


section \<open>A sample document, engine and state\<close>

text \<open>
  The stylesheet \<^verbatim>\<open>a{color:red}\<close> with the scopes a CSS grammar gives it, an engine
  with fixed answers, and a state whose dictionary 0 is the cache and whose dictionary 1
  is an options dictionary of a caller.
\<close>

definition sample_text :: string where
  "sample_text = ''a{color:red}''"

definition sample_view :: view where
  "sample_view =
     \<lparr>view_id = 1, view_size = 12,
      view_substr = (\<lambda>r. py_slice sample_text (region_begin r) (region_end r)),
      view_line = (\<lambda>p. Region 0 12),
      extract_scope = (\<lambda>p. if p < 1 then Region 0 1 else if p < 2 then Region 1 2
                            else if p < 7 then Region 2 7 else if p < 8 then Region 7 8
                            else if p < 11 then Region 8 11 else Region 11 12),
      match_selector = (\<lambda>p sel.
         if sel = ''meta.selector'' then p = 0
         else if sel = ''section.property-list'' then p = 1 \<or> p = 11
         else if sel = ''meta.property-name'' then 2 \<le> p \<and> p \<le> 6
         else if sel = ''meta.property-value'' then 8 \<le> p \<and> p \<le> 10
         else False)\<rparr>"

definition sample_tag :: matched_tag where
  "sample_tag =
     \<lparr>tag_name = ''a'',
      tag_attributes =
        [\<lparr>attr_name = ''href'', attr_value = Some (CHR 0x22 # ''foo'' @ [CHR 0x22])\<rparr>,
         \<lparr>attr_name = ''rel'', attr_value = Some (CHR 0x27 # ''foo'' @ [CHR 0x27])\<rparr>,
         \<lparr>attr_name = ''id'', attr_value = Some ''foo''\<rparr>,
         \<lparr>attr_name = ''alt'', attr_value = Some []\<rparr>,
         \<lparr>attr_name = ''title'',
          attr_value = Some ([CHR 0x22, CHR 0x22] @ ''foo'' @ [CHR 0x22, CHR 0x22])\<rparr>],
      tag_open = [0, 3],
      tag_close = None\<rparr>"

definition sample_ext :: externals where
  "sample_ext =
     \<lparr>emmet_extract = (\<lambda>text p opt.
         if p \<le> 0 then Inr None
         else Inr (Some \<lparr>ad_abbreviation = py_slice text 0 p, ad_location = 0,
                          ad_start = 0, ad_end = p\<rparr>)),
      expand_abbreviation = (\<lambda>abbr opt global_config cache.
         (AList.update abbr (VStr abbr) cache, Inr abbr)),
      html_match = (\<lambda>content pt opt. Some sample_tag),
      extract_math = (\<lambda>code pos opt.
         if code = [] then Inr None else Inr (Some (0, int (length code)))),
      evaluate = (\<lambda>e.
         if e = ''2/3'' then Inr (Finite (6004799503160661 / 9007199254740992))
         else if e = ''1/0'' then Inl (EngineError ''division by zero'')
         else Inr (Finite 0)),
      syntax_info = (\<lambda>v p dflt. [(''syntax'', VStr ''css''), (''type'', VStr ''stylesheet'')]),
      syntax_from_pos = (\<lambda>v p. VStr ''css''),
      syntax_is_xml = (\<lambda>s. False),
      syntax_is_html = (\<lambda>s. s = VStr ''html''),
      syntax_is_jsx = (\<lambda>s. s = VStr ''jsx''),
      syntax_is_inline = (\<lambda>v p. False)\<rparr>"

definition sample_world :: world where
  "sample_world =
     \<lparr>heap = (\<lambda>a. if a = 0 then [(''ul>li'', VStr ''parsed'')]
                   else if a = 1 then [(''type'', VStr ''stylesheet''), (''lookAhead'', VBool True)]
                   else []),
      next_addr = 2,
      emmet_cache = 0,
      settings = None,
      settings_files = (\<lambda>f. []),
      on_change = [],
      active_view = Some sample_view,
      extract_calls = []\<rparr>"


text \<open>A view whose \<^verbatim>\<open>extract_scope\<close> answers with a region that lies after the
  position asked for, which no editor view does.\<close>

definition stuck_view :: view where
  "stuck_view =
     \<lparr>view_id = 1, view_size = 1, view_substr = (\<lambda>r. []), view_line = (\<lambda>p. Region 0 1),
      extract_scope = (\<lambda>p. Region (p + 1) (p + 2)),
      match_selector = (\<lambda>p sel. False)\<rparr>"


section \<open>Extraction: look-ahead, offsets and the caller's dictionary\<close>

lemma location_cases:
  assumes "scan_target view loc = Some (pt, region)"
  shows "(case (case loc of
              LList rng \<Rightarrow> (case to_region rng of Inl e \<Rightarrow> Inl e | Inr r \<Rightarrow> Inr (LRegion r))
            | _ \<Rightarrow> Inr loc) of
        Inl e \<Rightarrow> X e
      | Inr loc1 \<Rightarrow>
          (case (case loc1 of
                   LInt i \<Rightarrow> Some (i, view_line view i)
                 | LRegion r \<Rightarrow> Some (region_end r, r)
                 | _ \<Rightarrow> None) of
             None \<Rightarrow> Y
           | Some (pt, region) \<Rightarrow> Z pt region)) = Z pt region"
  using assms by (cases loc) (auto split: sum.splits)

lemma extract_abbreviation_supplied:
  assumes tgt: "scan_target view loc = Some (pt, region)"
    and ty: "map_of (heap w a) ''type'' = Some t"
  shows "extract_abbreviation ext view loc (Some a) w =
    (let d = (if t = VStr ''stylesheet''
              then AList.update ''lookAhead'' (VBool False) (heap w a) else heap w a);
         text = view_substr view region;
         p = pt - region_begin region;
         w3 = w\<lparr>heap := (heap w)(a := d), extract_calls := extract_calls w @ [(text, p, d)]\<rparr>
     in Some (w3, case emmet_extract ext text p d of
                    Inl e \<Rightarrow> Inl e
                  | Inr None \<Rightarrow> Inr None
                  | Inr (Some m) \<Rightarrow> Inr (Some (translated m (region_begin region), a))))"
proof (cases "t = VStr ''stylesheet''")
  case True
  then show ?thesis
    unfolding extract_abbreviation_def location_cases [OF tgt]
    by (simp add: dict_item_def ty Let_def translated_def split: sum.split option.split)
next
  case False
  then show ?thesis
    unfolding extract_abbreviation_def location_cases [OF tgt]
    by (simp add: dict_item_def ty Let_def translated_def split: sum.split option.split)
qed

lemma extract_abbreviation_resolved:
  assumes tgt: "scan_target view loc = Some (pt, region)"
    and res: "get_options ext view pt False = Some (Inr cfg)"
    and ty: "map_of cfg ''type'' = Some t"
  shows "extract_abbreviation ext view loc None w =
    (let a = next_addr w;
         d = (if t = VStr ''stylesheet''
              then AList.update ''lookAhead'' (VBool False) cfg else cfg);
         text = view_substr view region;
         p = pt - region_begin region;
         w3 = w\<lparr>heap := (heap w)(a := d), next_addr := Suc a,
                 extract_calls := extract_calls w @ [(text, p, d)]\<rparr>
     in Some (w3, case emmet_extract ext text p d of
                    Inl e \<Rightarrow> Inl e
                  | Inr None \<Rightarrow> Inr None
                  | Inr (Some m) \<Rightarrow> Inr (Some (translated m (region_begin region), a))))"
proof (cases "t = VStr ''stylesheet''")
  case True
  then show ?thesis
    unfolding extract_abbreviation_def location_cases [OF tgt]
    by (simp add: dict_item_def ty res new_dict_def Let_def translated_def
             split: sum.split option.split)
next
  case False
  then show ?thesis
    unfolding extract_abbreviation_def location_cases [OF tgt]
    by (simp add: dict_item_def ty res new_dict_def Let_def translated_def
             split: sum.split option.split)
qed


lemma map_of_update_same: "map_of (AList.update k v d) k = Some v"
  by (simp add: update_conv')

lemma location_rejected:
  assumes "scan_target view loc = None"
  shows "extract_abbreviation ext view loc opt w = Some (w, Inl IndexError)
         \<or> extract_abbreviation ext view loc opt w = Some (w, Inr None)"
proof (cases loc)
  case (LInt i)
  with assms show ?thesis by simp
next
  case (LList rng)
  with assms have "to_region rng = Inl IndexError"
    by (auto simp: to_region_def split: list.splits)
  with LList show ?thesis
    by (simp add: extract_abbreviation_def)
next
  case (LRegion r)
  with assms show ?thesis by simp
next
  case LOther
  then show ?thesis
    by (simp add: extract_abbreviation_def)
qed

lemma extract_abbreviation_no_type:
  assumes tgt: "scan_target view loc = Some (pt, region)"
    and ty: "map_of (heap w a) ''type'' = None"
  shows "extract_abbreviation ext view loc (Some a) w = Some (w, Inl (KeyError ''type''))"
  unfolding extract_abbreviation_def location_cases [OF tgt]
  by (simp add: dict_item_def ty)

lemma extract_abbreviation_unresolved:
  assumes tgt: "scan_target view loc = Some (pt, region)"
  shows "get_options ext view pt False = None \<Longrightarrow> extract_abbreviation ext view loc None w = None"
    and "get_options ext view pt False = Some (Inl e)
         \<Longrightarrow> extract_abbreviation ext view loc None w = Some (w, Inl e)"
    and "get_options ext view pt False = Some (Inr cfg) \<Longrightarrow> map_of cfg ''type'' = None
         \<Longrightarrow> extract_abbreviation ext view loc None w
             = Some (fst (new_dict cfg w), Inl (KeyError ''type''))"
  unfolding extract_abbreviation_def location_cases [OF tgt]
  by (simp_all add: dict_item_def new_dict_def)



text \<open>\<^verbatim>\<open>extract_abbreviation\<close> always returns: it resolves the options without the
  context, so the loop of \<^verbatim>\<open>get_css_context\<close> is not entered.\<close>

lemma get_options_returns: "\<exists>r. get_options ext view pt False = Some r"
  by (simp add: get_options_def Let_def split: sum.split)

lemma extract_abbreviation_returns:
  "\<exists>w' r. extract_abbreviation ext view loc opt w = Some (w', r)"
proof (cases "scan_target view loc")
  case None
  from location_rejected [OF None, of ext opt w] show ?thesis
    by blast
next
  case (Some tr)
  obtain pt region where tgt: "scan_target view loc = Some (pt, region)"
    using Some by (cases tr) simp
  show ?thesis
  proof (cases opt)
    case (Some a)
    show ?thesis
    proof (cases "map_of (heap w a) ''type''")
      case None
      from extract_abbreviation_no_type [OF tgt None, of ext] Some show ?thesis
        by simp
    next
      case (Some t)
      from extract_abbreviation_supplied [OF tgt Some, of ext] \<open>opt = Some a\<close> show ?thesis
        by (simp add: Let_def)
    qed
  next
    case None
    note opt = None
    from get_options_returns obtain res where g: "get_options ext view pt False = Some res"
      by blast
    show ?thesis
    proof (cases res)
      case (Inl e)
      from extract_abbreviation_unresolved(2) [OF tgt, of ext e w] g Inl opt show ?thesis
        by simp
    next
      case (Inr cfg)
      show ?thesis
      proof (cases "map_of cfg ''type''")
        case None
        from extract_abbreviation_unresolved(3) [OF tgt, of ext cfg w] g Inr None opt
        show ?thesis
          by simp
      next
        case (Some t)
        from extract_abbreviation_resolved [OF tgt, of ext cfg t w] g Inr Some opt
        show ?thesis
          by (simp add: Let_def)
      qed
    qed
  qed
qed




text \<open>
  C2. When the engine finds an abbreviation at offsets relative to the scanned region,
  \<^verbatim>\<open>extract_abbreviation\<close> returns it with \<^verbatim>\<open>start\<close>, \<^verbatim>\<open>end\<close> and \<^verbatim>\<open>location\<close> each moved
  by the start of that region.
\<close>

theorem offsets_translated:
  assumes tgt: "scan_target view loc = Some (pt, region)"
    and opts: "opt = Some a \<and> d = heap w a
               \<or> opt = None \<and> get_options ext view pt False = Some (Inr d)"
    and ty: "map_of d ''type'' = Some t"
    and found: "emmet_extract ext (view_substr view region) (pt - region_begin region)
                  (if t = VStr ''stylesheet''
                   then AList.update ''lookAhead'' (VBool False) d else d) = Inr (Some m)"
  shows "\<exists>w' m' a'. extract_abbreviation ext view loc opt w = Some (w', Inr (Some (m', a')))
           \<and> ad_start m' = ad_start m + region_begin region
           \<and> ad_end m' = ad_end m + region_begin region
           \<and> ad_location m' = ad_location m + region_begin region
           \<and> ad_abbreviation m' = ad_abbreviation m"
proof (cases "t = VStr ''stylesheet''")
  case True
  from opts show ?thesis
  proof
    assume "opt = Some a \<and> d = heap w a"
    then show ?thesis
      using extract_abbreviation_supplied [OF tgt, where w = w and a = a and t = t and ext = ext]
        ty found True
      by (simp add: Let_def translated_def)
  next
    assume "opt = None \<and> get_options ext view pt False = Some (Inr d)"
    then show ?thesis
      using extract_abbreviation_resolved [OF tgt, where ext = ext and cfg = d and t = t and w = w]
        ty found True
      by (simp add: Let_def translated_def)
  qed
next
  case False
  from opts show ?thesis
  proof
    assume "opt = Some a \<and> d = heap w a"
    then show ?thesis
      using extract_abbreviation_supplied [OF tgt, where w = w and a = a and t = t and ext = ext]
        ty found False
      by (simp add: Let_def translated_def)
  next
    assume "opt = None \<and> get_options ext view pt False = Some (Inr d)"
    then show ?thesis
      using extract_abbreviation_resolved [OF tgt, where ext = ext and cfg = d and t = t and w = w]
        ty found False
      by (simp add: Let_def translated_def)
  qed
qed

theorem offsets_translated_witness:
  "\<exists>w' m' a'. extract_abbreviation sample_ext sample_view (LRegion (Region 2 7)) (Some 1) sample_world
        = Some (w', Inr (Some (m', a')))
      \<and> ad_start m' = 0 + 2 \<and> ad_end m' = 5 + 2 \<and> ad_location m' = 0 + 2
      \<and> ad_abbreviation m' = ''color''"
  using offsets_translated [where view = sample_view and loc = "LRegion (Region 2 7)"
      and pt = 7 and region = "Region 2 7" and opt = "Some 1" and a = 1
      and d = "[(''type'', VStr ''stylesheet''), (''lookAhead'', VBool True)]"
      and w = sample_world and t = "VStr ''stylesheet''" and ext = sample_ext
      and m = "\<lparr>ad_abbreviation = ''color'', ad_location = 0, ad_start = 0, ad_end = 5\<rparr>"]
  by (simp add: sample_view_def sample_world_def sample_ext_def sample_text_def
        py_slice_def slice_index_def)

text \<open>
  C10. With a caller's dictionary of type \<^verbatim>\<open>stylesheet\<close>, \<^verbatim>\<open>extract_abbreviation\<close> sets
  \<^verbatim>\<open>lookAhead\<close> to \<^verbatim>\<open>False\<close> in that very dictionary: after the call the object at the
  caller's address holds the new entry, no other object has changed, no dictionary
  has been created, and the reference returned is the caller's.
\<close>

theorem stylesheet_options_mutated_in_place:
  assumes tgt: "scan_target view loc = Some (pt, region)"
    and ty: "map_of (heap w a) ''type'' = Some (VStr ''stylesheet'')"
  shows "\<exists>w' r. extract_abbreviation ext view loc (Some a) w = Some (w', r)
           \<and> heap w' a = AList.update ''lookAhead'' (VBool False) (heap w a)
           \<and> map_of (heap w' a) ''lookAhead'' = Some (VBool False)
           \<and> (\<forall>b. b \<noteq> a \<longrightarrow> heap w' b = heap w b)
           \<and> next_addr w' = next_addr w
           \<and> (\<forall>m a'. r = Inr (Some (m, a')) \<longrightarrow> a' = a)"
  using extract_abbreviation_supplied [OF tgt ty, where ext = ext]
  by (auto simp: Let_def map_of_update_same split: sum.splits option.splits)

theorem stylesheet_options_mutated_in_place_witness:
  "\<exists>w' r. extract_abbreviation sample_ext sample_view (LInt 6) (Some 1) sample_world = Some (w', r)
      \<and> heap w' 1 = [(''type'', VStr ''stylesheet''), (''lookAhead'', VBool False)]
      \<and> heap sample_world 1 = [(''type'', VStr ''stylesheet''), (''lookAhead'', VBool True)]
      \<and> heap w' 0 = heap sample_world 0
      \<and> next_addr w' = 2"
proof -
  have tgt: "scan_target sample_view (LInt 6) = Some (6, Region 0 12)"
    by (simp add: sample_view_def)
  have before: "heap sample_world 1 = [(''type'', VStr ''stylesheet''), (''lookAhead'', VBool True)]"
    by (simp add: sample_world_def)
  have ty: "map_of (heap sample_world 1) ''type'' = Some (VStr ''stylesheet'')"
    unfolding before by simp
  have nxt: "next_addr sample_world = 2"
    by (simp add: sample_world_def)
  from stylesheet_options_mutated_in_place [OF tgt ty, where ext = sample_ext]
  obtain w' r where run: "extract_abbreviation sample_ext sample_view (LInt 6) (Some 1) sample_world
        = Some (w', r)"
    and after: "heap w' 1 = AList.update ''lookAhead'' (VBool False) (heap sample_world 1)"
    and frame: "\<forall>b. b \<noteq> 1 \<longrightarrow> heap w' b = heap sample_world b"
    and same: "next_addr w' = next_addr sample_world"
    by blast
  from after have "heap w' 1 = [(''type'', VStr ''stylesheet''), (''lookAhead'', VBool False)]"
    unfolding before by simp
  moreover from frame have "heap w' 0 = heap sample_world 0"
    by simp
  ultimately show ?thesis
    using run before same nxt by - (rule exI [of _ w'], rule exI [of _ r], simp)
qed


section \<open>Fields and expansion\<close>

lemma dict_update_other:
  "k \<notin> fst ` set other \<Longrightarrow> map_of (dict_update d other) k = map_of d k"
  unfolding dict_update_def
  by (induction other arbitrary: d) (auto simp: update_conv')

lemma expand_single_field_config:
  assumes "active_view w = Some v" "view_id v \<noteq> 0" "cfg \<noteq> []" "map_of cfg ''options'' = None"
  shows "snd (expand (ext\<lparr>expand_abbreviation := single_field_engine index placeholder\<rparr>)
                abbr (Some cfg) w)
     = Inr (if truthy (dict_get cfg ''preview'' (VBool False))
            then field_preview index placeholder else field index placeholder)"
  using assms
  by (auto simp add: expand_def Let_def split_def single_field_engine_def dict_get_def
        update_conv' dict_update_other map_of_eq_None_iff)

lemma expand_single_field_default:
  assumes "active_view w = Some v" "view_id v \<noteq> 0"
  shows "snd (expand (ext\<lparr>expand_abbreviation := single_field_engine index placeholder\<rparr>)
                abbr None w)
     = Inr (field index placeholder)"
  using assms
  by (simp add: expand_def Let_def split_def single_field_engine_def dict_get_def update_conv')

text \<open>
  C7. The default field callback renders \<^verbatim>\<open>${index:placeholder}\<close>, and \<^verbatim>\<open>${index}\<close>
  for an empty placeholder; the preview callback renders the placeholder alone. For
  index 2 and placeholder \<^verbatim>\<open>text\<close> these are \<^verbatim>\<open>${2:text}\<close> and \<^verbatim>\<open>text\<close>. \<^verbatim>\<open>expand\<close>
  installs the preview callback when the configuration asks for a preview and the
  default callback otherwise (shown with an engine that renders one field through the
  installed callback, for a configuration that does not override \<^verbatim>\<open>options\<close>).
\<close>

theorem field_rendering:
  "field index placeholder =
     (if placeholder = [] then ''${'' @ fmt_d index @ ''}''
      else ''${'' @ fmt_d index @ '':'' @ placeholder @ ''}'')
   \<and> field_preview index placeholder = placeholder
   \<and> field 2 ''text'' = ''${2:text}''
   \<and> field_preview 2 ''text'' = ''text''
   \<and> (active_view w = Some v \<and> view_id v \<noteq> 0 \<longrightarrow>
        snd (expand (ext\<lparr>expand_abbreviation := single_field_engine index placeholder\<rparr>)
               abbr None w) = Inr (field index placeholder))
   \<and> (active_view w = Some v \<and> view_id v \<noteq> 0 \<and> cfg \<noteq> [] \<and> map_of cfg ''options'' = None \<longrightarrow>
        snd (expand (ext\<lparr>expand_abbreviation := single_field_engine index placeholder\<rparr>)
               abbr (Some cfg) w)
        = Inr (if truthy (dict_get cfg ''preview'' (VBool False))
               then field_preview index placeholder else field index placeholder))"
proof -
  have "field 2 ''text'' = ''${2:text}''"
    by (simp add: field_def fmt_d_def digits10.simps digit_char_def)
  then show ?thesis
    using expand_single_field_config [where w = w and v = v and cfg = cfg and ext = ext
        and index = index and placeholder = placeholder and abbr = abbr]
      expand_single_field_default [where w = w and v = v and ext = ext
        and index = index and placeholder = placeholder and abbr = abbr]
    by (simp add: field_def field_preview_def)
qed

theorem field_rendering_witness:
  "field 2 ''text'' = ''${2:text}''
   \<and> snd (expand (sample_ext\<lparr>expand_abbreviation := single_field_engine 2 ''text''\<rparr>)
            ''a'' None sample_world) = Inr ''${2:text}''
   \<and> snd (expand (sample_ext\<lparr>expand_abbreviation := single_field_engine 2 ''text''\<rparr>)
            ''a'' (Some [(''preview'', VBool True)]) sample_world) = Inr ''text''"
proof -
  have v: "active_view sample_world = Some sample_view" "view_id sample_view \<noteq> 0"
    by (simp_all add: sample_world_def sample_view_def)
  have c: "[(''preview'', VBool True)] \<noteq> ([] :: dict)"
    "map_of [(''preview'', VBool True)] ''options'' = None"
    "truthy (dict_get [(''preview'', VBool True)] ''preview'' (VBool False))"
    by (simp_all add: dict_get_def)
  note th = field_rendering [where index = 2 and placeholder = "''text''" and w = sample_world
      and v = sample_view and ext = sample_ext and abbr = "''a''"
      and cfg = "[(''preview'', VBool True)]"]
  from th have f: "field 2 ''text'' = ''${2:text}''"
    by blast
  from th v have "snd (expand (sample_ext\<lparr>expand_abbreviation := single_field_engine 2 ''text''\<rparr>)
            ''a'' None sample_world) = Inr (field 2 ''text'')"
    by blast
  moreover from th v c
  have "snd (expand (sample_ext\<lparr>expand_abbreviation := single_field_engine 2 ''text''\<rparr>)
            ''a'' (Some [(''preview'', VBool True)]) sample_world) = Inr (field_preview 2 ''text'')"
    by presburger
  ultimately show ?thesis
    by (simp only: f field_preview_def simp_thms)
qed

text \<open>
  C4. Called while the window has no active view, \<^verbatim>\<open>expand\<close> does not fall back to any
  default: \<^verbatim>\<open>global_config\<close> was never assigned and the call ends in
  \<^verbatim>\<open>UnboundLocalError\<close>, before the engine is reached.
\<close>

theorem expand_without_active_view:
  "expand ext abbr None (w\<lparr>active_view := None\<rparr>)
     = (w\<lparr>active_view := None\<rparr>, Inl (UnboundLocalError ''global_config''))"
  by (simp add: expand_def)

theorem expand_without_active_view_witness:
  "expand sample_ext ''div'' None (sample_world\<lparr>active_view := None\<rparr>)
     = (sample_world\<lparr>active_view := None\<rparr>, Inl (UnboundLocalError ''global_config''))"
  by (rule expand_without_active_view)

text \<open>With an active view and no \<^verbatim>\<open>config\<close> key in the settings, the global
  configuration handed to the engine is \<^verbatim>\<open>None\<close>.\<close>

lemma expand_missing_config_key:
  assumes "active_view w = Some v" "view_id v \<noteq> 0"
    and "map_of (settings_files w ''Emmet.sublime-settings'') ''config'' = None"
    and "settings w = None \<or> settings w = Some ''Emmet.sublime-settings''"
  shows "snd (get_settings ''config'' VNone w) = VNone"
  using assms by (auto simp: get_settings_def Let_def dict_get_def)


section \<open>The cache\<close>

text \<open>
  C8. After \<^verbatim>\<open>handle_settings_change\<close> the dictionary that \<^verbatim>\<open>emmet_cache\<close> refers to is
  empty, whatever the cache held before.
\<close>

theorem settings_change_clears_cache:
  "heap (handle_settings_change w) (emmet_cache (handle_settings_change w)) = []
   \<and> length (heap (handle_settings_change w) (emmet_cache (handle_settings_change w))) = 0"
  by (simp add: handle_settings_change_def new_dict_def)

text \<open>The handler binds the global to a new dictionary: the object that was the cache
  before keeps its content.\<close>

lemma settings_change_rebinds:
  assumes "emmet_cache w < next_addr w"
  shows "emmet_cache (handle_settings_change w) \<noteq> emmet_cache w
         \<and> heap (handle_settings_change w) (emmet_cache w) = heap w (emmet_cache w)"
  using assms by (simp add: handle_settings_change_def new_dict_def)

text \<open>The handler is what \<^verbatim>\<open>get_settings\<close> registers for changes of \<^verbatim>\<open>config\<close>.\<close>

lemma get_settings_registers:
  assumes "settings w = None"
  shows "on_change (fst (get_settings key dflt w))
           = on_change w @ [(''Emmet.sublime-settings'', ''config'', HandleSettingsChange)]"
  using assms by (simp add: get_settings_def)


section \<open>The walk back to the property name\<close>

lemma css_walk_returns:
  assumes scope: "\<forall>p. 0 \<le> p \<longrightarrow> region_begin (extract_scope view p) \<le> p"
  shows "\<exists>r. css_walk view p = Some r"
proof (induction "nat (p + 1)" arbitrary: p rule: less_induct)
  case less
  show ?case
  proof (cases "0 \<le> p \<and> \<not> match_selector view p ''section.property-list''
         \<and> \<not> match_selector view p ''meta.selector''
         \<and> \<not> match_selector view p ''meta.property-name''")
    case True
    then have "region_begin (extract_scope view p) - 1 < p"
      using scope by fastforce
    with True have "nat (region_begin (extract_scope view p) - 1 + 1) < nat (p + 1)"
      by linarith
    then obtain r where "css_walk view (region_begin (extract_scope view p) - 1) = Some r"
      using less by blast
    with True show ?thesis
      by (subst css_walk.simps) simp
  next
    case False
    then show ?thesis
      by (subst css_walk.simps) auto
  qed
qed

text \<open>
  C9. The loop of \<^verbatim>\<open>get_css_context\<close> ends, from every position and for every view
  whose \<^verbatim>\<open>extract_scope\<close> returns a region that begins at or before the position asked
  for (the extent of the scope at a point contains the point): each iteration moves the
  position to one before the start of that region, which is below the position.
\<close>

theorem css_walk_terminates:
  assumes scope: "\<forall>p. 0 \<le> p \<longrightarrow> region_begin (extract_scope view p) \<le> p"
  shows "(\<exists>r. get_css_context view pt = Some r)
         \<and> (\<forall>p. \<exists>r. css_walk view p = Some r)
         \<and> (\<forall>p. 0 \<le> p \<longrightarrow> region_begin (extract_scope view p) - 1 < p)"
proof -
  have "\<exists>r. get_css_context view pt = Some r"
    using css_walk_returns [OF scope] by (simp add: get_css_context_def)
  moreover have "\<forall>p. 0 \<le> p \<longrightarrow> region_begin (extract_scope view p) - 1 < p"
    using scope by fastforce
  ultimately show ?thesis
    using css_walk_returns [OF scope] by blast
qed

lemma sample_view_scopes:
  "\<forall>p. 0 \<le> p \<longrightarrow> region_begin (extract_scope sample_view p) \<le> p"
  by (simp add: sample_view_def)

theorem css_walk_terminates_witness:
  "\<exists>r. get_css_context sample_view 9 = Some r"
  using css_walk_terminates [OF sample_view_scopes, of 9] by blast

text \<open>On the sample stylesheet: inside the value \<^verbatim>\<open>red\<close> the walk finds \<^verbatim>\<open>color\<close>; on the
  colon there is no context.\<close>

lemma sample_css_context:
  "get_css_context sample_view 9 = Some (VDict [(''name'', VStr ''color'')])"
  "get_css_context sample_view 7 = Some VNone"
  by (simp_all add: get_css_context_def css_walk.simps sample_view_def sample_text_def
        py_slice_def slice_index_def)

text \<open>Without that property of \<^verbatim>\<open>extract_scope\<close> the loop need not end.\<close>

lemma css_walk_stuck: "css_walk stuck_view 0 = None"
proof (rule ccontr)
  assume "css_walk stuck_view 0 \<noteq> None"
  then obtain r where ret: "css_walk stuck_view 0 = Some r"
    by blast
  have "\<not> (stuck_view = stuck_view \<and> (0::int) \<le> 0)"
  proof (rule css_walk.raw_induct [where P = "\<lambda>view p r. \<not> (view = stuck_view \<and> 0 \<le> p)", OF _ ret])
    fix f view p r
    assume IH: "\<And>view p r. f view p = Some r \<Longrightarrow> \<not> (view = stuck_view \<and> 0 \<le> p)"
      and eq: "(if 0 \<le> p \<and> \<not> match_selector view p ''section.property-list''
                   \<and> \<not> match_selector view p ''meta.selector''
                then (if match_selector view p ''meta.property-name''
                      then Some (VDict [(''name'', VStr (view_substr view (extract_scope view p)))])
                      else f view (region_begin (extract_scope view p) - 1))
                else Some VNone) = Some r"
    show "\<not> (view = stuck_view \<and> 0 \<le> p)"
    proof
      assume a: "view = stuck_view \<and> 0 \<le> p"
      with eq have "f stuck_view p = Some r"
        by (simp add: stuck_view_def)
      from IH [OF this] a show False
        by simp
    qed
  qed
  then show False
    by simp
qed


section \<open>Stripping characters\<close>

lemma py_rstrip_Nil: "py_rstrip cs [] = []"
  by (simp add: py_rstrip_def)

lemma py_rstrip_snoc:
  "py_rstrip cs (xs @ [c]) = (if c \<in> set cs then py_rstrip cs xs else xs @ [c])"
  by (simp add: py_rstrip_def)

lemma py_rstrip_last: "py_rstrip cs t = [] \<or> last (py_rstrip cs t) \<notin> set cs"
  by (induction t rule: rev_induct) (simp_all add: py_rstrip_Nil py_rstrip_snoc)

lemma py_rstrip_subset: "set (py_rstrip cs t) \<subseteq> set t"
  by (induction t rule: rev_induct) (auto simp: py_rstrip_Nil py_rstrip_snoc)

lemma py_rstrip_stops:
  "c \<notin> set cs \<Longrightarrow> py_rstrip cs (pre @ c # t) = pre @ c # py_rstrip cs t"
proof (induction t rule: rev_induct)
  case Nil
  then show ?case
    using py_rstrip_snoc [of cs pre c] by (simp add: py_rstrip_Nil)
next
  case (snoc x xs)
  then show ?case
    using py_rstrip_snoc [of cs "pre @ c # xs" x] py_rstrip_snoc [of cs xs x] by simp
qed

lemma py_rstrip_keep: "t \<noteq> [] \<Longrightarrow> last t \<notin> set cs \<Longrightarrow> py_rstrip cs t = t"
  by (cases t rule: rev_cases) (simp_all add: py_rstrip_snoc)





section \<open>Math evaluation: errors and the snippet\<close>



text \<open>An error of the scanner is not caught.\<close>

lemma evaluate_math_scanner_error:
  "extract_math ext code pos options = Inl e \<Longrightarrow> evaluate_math ext code pos options = Inl e"
  by (simp add: evaluate_math_def)

lemma digit_char_digit: "n < 10 \<Longrightarrow> digit_char n \<in> set ''0123456789''"
  unfolding digit_char_def by (rule nth_mem) simp

lemma digits10_digits: "digits10 n \<noteq> [] \<and> set (digits10 n) \<subseteq> set ''0123456789''"
proof (induction n rule: digits10.induct)
  case (1 n)
  show ?case
  proof (cases "n < 10")
    case True
    then show ?thesis
      using digit_char_digit [of n] by (subst digits10.simps, subst digits10.simps) simp
  next
    case False
    have "digit_char (n mod 10) \<in> set ''0123456789''"
      by (rule digit_char_digit) simp
    with False "1.IH" show ?thesis
      by (subst digits10.simps, subst digits10.simps) simp
  qed
qed

lemma frac4_digits: "set (frac4 m) \<subseteq> set ''0123456789''"
proof -
  have "\<And>k. digit_char (k mod 10) \<in> set ''0123456789''"
    by (rule digit_char_digit) simp
  then show ?thesis
    unfolding frac4_def by (metis (no_types, lifting) empty_subsetI insert_subset list.simps(15) set_empty2)
qed


lemma trim_point_fraction:
  assumes pre: "pre \<noteq> []" "last pre \<in> set ''0123456789''" "CHR ''.'' \<notin> set pre"
    and fr: "set fr \<subseteq> set ''0123456789''"
    and s: "s = py_rstrip ''.'' (py_rstrip ''0'' (pre @ ''.'' @ fr))"
  shows "s \<noteq> [] \<and> last s \<noteq> CHR ''.'' \<and> \<not> (CHR ''.'' \<in> set s \<and> last s = CHR ''0'')"
proof -
  let ?f = "py_rstrip ''0'' fr"
  have s1: "py_rstrip ''0'' (pre @ ''.'' @ fr) = pre @ CHR ''.'' # ?f"
    using py_rstrip_stops [of "CHR ''.''" "''0''" pre fr] by simp
  show ?thesis
  proof (cases "?f = []")
    case True
    have "last pre \<noteq> CHR ''.''"
      using pre(2) by auto
    then have "py_rstrip ''.'' pre = pre"
      using pre(1) by (simp add: py_rstrip_keep)
    then have "s = pre"
      using s s1 True py_rstrip_snoc [of "''.''" pre "CHR ''.''"] by simp
    with pre \<open>last pre \<noteq> CHR ''.''\<close> show ?thesis
      by simp
  next
    case False
    then have l0: "last ?f \<noteq> CHR ''0''"
      using py_rstrip_last [of "''0''" fr] by simp
    have "last ?f \<in> set fr"
      using False py_rstrip_subset [of "''0''" fr] last_in_set [of ?f] by blast
    then have "last ?f \<in> set ''0123456789''"
      using fr by blast
    then have lp: "last ?f \<noteq> CHR ''.''"
      by auto
    have ne: "pre @ CHR ''.'' # ?f \<noteq> []" and la: "last (pre @ CHR ''.'' # ?f) = last ?f"
      using False by simp_all
    have "py_rstrip ''.'' (pre @ CHR ''.'' # ?f) = pre @ CHR ''.'' # ?f"
      using py_rstrip_keep [OF ne, of "''.''"] la lp by simp
    then have "s = pre @ CHR ''.'' # ?f"
      using s s1 by simp
    with False l0 lp show ?thesis
      by simp
  qed
qed

lemma fmt_4f_trimmed:
  assumes "s = py_rstrip ''.'' (py_rstrip ''0'' (fmt_4f x))"
  shows "s \<noteq> [] \<and> last s \<noteq> CHR ''.'' \<and> \<not> (CHR ''.'' \<in> set s \<and> last s = CHR ''0'')"
proof (cases x)
  case (Finite q)
  define n where "n = nat (round_half_even (\<bar>q\<bar> * 10000))"
  define pre where "pre = (if q < 0 then ''-'' else []) @ digits10 (n div 10000)"
  have d: "digits10 (n div 10000) \<noteq> []" "set (digits10 (n div 10000)) \<subseteq> set ''0123456789''"
    using digits10_digits [of "n div 10000"] by simp_all
  then have "last (digits10 (n div 10000)) \<in> set ''0123456789''"
    using last_in_set by blast
  then have p: "pre \<noteq> []" "last pre \<in> set ''0123456789''"
    using d(1) by (simp_all add: pre_def)
  have "CHR ''.'' \<notin> set (digits10 (n div 10000))"
    using d(2) by auto
  then have p3: "CHR ''.'' \<notin> set pre"
    by (simp add: pre_def)
  have "fmt_4f x = pre @ ''.'' @ frac4 (n mod 10000)"
    using Finite by (simp add: pre_def n_def Let_def)
  with assms have "s = py_rstrip ''.'' (py_rstrip ''0'' (pre @ ''.'' @ frac4 (n mod 10000)))"
    by simp
  from trim_point_fraction [OF p p3 frac4_digits this] show ?thesis .
next
  case NegZero
  with assms show ?thesis by (simp add: py_rstrip_def)
next
  case PosInf
  with assms show ?thesis by (simp add: py_rstrip_def)
next
  case NegInf
  with assms show ?thesis by (simp add: py_rstrip_def)
next
  case NaN
  with assms show ?thesis by (simp add: py_rstrip_def)
qed

lemma round_two_thirds:
  assumes "66665 / 100000 < q" "q < 66675 / 100000"
  shows "round_half_even (\<bar>q\<bar> * 10000) = 6667"
proof -
  let ?x = "\<bar>q\<bar> * 10000"
  have x: "13333 / 2 < ?x" "?x < 13335 / 2"
    using assms by simp_all
  have "6666 \<le> \<lfloor>?x\<rfloor>"
    using x(1) by (simp add: le_floor_iff)
  moreover have "\<lfloor>?x\<rfloor> < 6668"
    using x(2) by (simp add: floor_less_iff)
  ultimately consider "\<lfloor>?x\<rfloor> = 6666" | "\<lfloor>?x\<rfloor> = 6667"
    by linarith
  then show ?thesis
  proof cases
    case 1
    then show ?thesis
      using x(1) by (simp add: round_half_even_def Let_def)
  next
    case 2
    then show ?thesis
      using x(2) by (simp add: round_half_even_def Let_def)
  qed
qed

lemma two_thirds_snippet:
  assumes "66665 / 100000 < q" "q < 66675 / 100000"
  shows "py_rstrip ''.'' (py_rstrip ''0'' (fmt_4f (Finite q))) = ''0.6667''"
proof -
  have "\<not> q < 0"
    using assms by simp
  then have "fmt_4f (Finite q) = ''0.6667''"
    using round_two_thirds [OF assms]
    by (simp add: frac4_def digit_char_def digits10.simps)
  then show ?thesis
    by (simp add: py_rstrip_def)
qed

text \<open>
  C6. When \<^verbatim>\<open>evaluate_math\<close> succeeds, the snippet is the \<^verbatim>\<open>'%.4f'\<close> rendering of the
  result with its trailing zeros and then a trailing point stripped: it is not empty,
  does not end in a point, and does not end in \<^verbatim>\<open>0\<close> when it contains a point. For a
  result that rounds to 0.6667, such as the float of \<^verbatim>\<open>2/3\<close>, it is \<^verbatim>\<open>0.6667\<close>.
\<close>

theorem math_snippet_trimmed:
  assumes "extract_math ext code pos options = Inr (Some (start, stop))"
    and "evaluate ext (py_slice code start stop) = Inr result"
  shows "\<exists>snippet. evaluate_math ext code pos options =
            Inr (VDict [(''start'', VInt start), (''end'', VInt stop),
                        (''result'', VFloat result), (''snippet'', VStr snippet)])
         \<and> snippet = py_rstrip ''.'' (py_rstrip ''0'' (fmt_4f result))
         \<and> snippet \<noteq> [] \<and> last snippet \<noteq> CHR ''.''
         \<and> \<not> (CHR ''.'' \<in> set snippet \<and> last snippet = CHR ''0'')
         \<and> (\<forall>q. result = Finite q \<and> 66665 / 100000 < q \<and> q < 66675 / 100000
                \<longrightarrow> snippet = ''0.6667'')"
proof -
  let ?s = "py_rstrip ''.'' (py_rstrip ''0'' (fmt_4f result))"
  have "evaluate_math ext code pos options =
            Inr (VDict [(''start'', VInt start), (''end'', VInt stop),
                        (''result'', VFloat result), (''snippet'', VStr ?s)])"
    using assms by (simp add: evaluate_math_def)
  moreover have "?s \<noteq> [] \<and> last ?s \<noteq> CHR ''.'' \<and> \<not> (CHR ''.'' \<in> set ?s \<and> last ?s = CHR ''0'')"
    using fmt_4f_trimmed [of ?s result] by simp
  moreover have "\<forall>q. result = Finite q \<and> 66665 / 100000 < q \<and> q < 66675 / 100000
                \<longrightarrow> ?s = ''0.6667''"
    using two_thirds_snippet by blast
  ultimately show ?thesis
    by blast
qed

theorem math_snippet_trimmed_witness:
  "\<exists>snippet. evaluate_math sample_ext ''2/3'' 3 VNone =
            Inr (VDict [(''start'', VInt 0), (''end'', VInt 3),
                        (''result'', VFloat (Finite (6004799503160661 / 9007199254740992))),
                        (''snippet'', VStr snippet)])
         \<and> snippet = ''0.6667''"
proof -
  have x: "extract_math sample_ext ''2/3'' 3 VNone = Inr (Some (0, 3))"
    by (simp add: sample_ext_def)
  have e: "evaluate sample_ext (py_slice ''2/3'' 0 3)
             = Inr (Finite (6004799503160661 / 9007199254740992))"
    by (simp add: sample_ext_def py_slice_def slice_index_def)
  have q: "(66665::rat) / 100000 < 6004799503160661 / 9007199254740992"
    "(6004799503160661::rat) / 9007199254740992 < 66675 / 100000"
    by simp_all
  from math_snippet_trimmed [OF x e] q show ?thesis
    by blast
qed


section \<open>Attribute values of the tag context\<close>







end
